theory Spec2Isabelle
  imports Complex_Main
begin

section \<open>JavaScript values\<close>

text \<open>
  A field of a JavaScript object that has not been assigned reads as \<open>undefined\<close>; such
  fields are \<open>option\<close>s with \<open>None\<close> for \<open>undefined\<close>/\<open>null\<close>.  Reading a property of
  \<open>undefined\<close> raises a TypeError.  A callback that raises keeps the mutations it made
  before the raise, so every handler returns the state it reached together with the
  error, if any.  Numbers are an arbitrary type \<open>'n\<close> with the arithmetic operations the
  code uses: the general theorems use no law of arithmetic, and the concrete inputs are
  evaluated over the reals.
\<close>

datatype js_error = TypeError

type_synonym exn = string

definition js_get :: "'a list \<Rightarrow> nat \<Rightarrow> 'a option" where
  \<comment> \<open>\<open>arr[i]\<close>: \<open>undefined\<close> out of range\<close>
  "js_get arr i = (if i < length arr then Some (arr ! i) else None)"

definition truthy :: "bool option \<Rightarrow> bool" where
  \<comment> \<open>truthiness of a field that is \<open>undefined\<close>, \<open>false\<close> or \<open>true\<close>\<close>
  "truthy b = (case b of None \<Rightarrow> False | Some v \<Rightarrow> v)"

section \<open>The rendering library's objects, as the AR app uses them\<close>

record 'v vector3 =
  v_x :: 'v
  v_y :: 'v
  v_z :: 'v

text \<open>The sixteen \<open>elements\<close> of a \<open>THREE.Matrix4\<close>, column-major.\<close>

type_synonym 'n matrix4 = "'n option list"

definition Matrix4_new :: "('n::{zero,one}) matrix4" where
  "Matrix4_new = map Some [1, 0, 0, 0,  0, 1, 0, 0,  0, 0, 1, 0,  0, 0, 0, 1]"

definition Matrix4_fromArray :: "'n list \<Rightarrow> 'n matrix4" where
  \<comment> \<open>\<open>for (i = 0; i < 16; i++) elements[i] = array[i]\<close>\<close>
  "Matrix4_fromArray arr = map (js_get arr) [0..<16]"

definition elem :: "'n matrix4 \<Rightarrow> nat \<Rightarrow> 'n option" where
  "elem m i = (if i < length m then m ! i else None)"

definition setFromMatrixPosition :: "'n matrix4 \<Rightarrow> 'n option vector3" where
  \<comment> \<open>\<open>x = e[12]; y = e[13]; z = e[14]\<close>\<close>
  "setFromMatrixPosition m = \<lparr>v_x = elem m 12, v_y = elem m 13, v_z = elem m 14\<rparr>"

text \<open>
  The orientation of an object is kept as the library calls that produced it:
  \<open>lookAt(x, y, z)\<close> replaces it, \<open>rotateY(angle)\<close> turns the current one.
\<close>

datatype 'n orientation =
    Unrotated
  | LookAt "'n option vector3"
  | RotateY 'n "'n orientation"

text \<open>The cube; its geometry and material are constants of the rendering and are left out.\<close>

record 'n mesh =
  position :: "'n option vector3"
  orientation :: "'n orientation"

definition Mesh_new :: "('n::zero) mesh" where
  "Mesh_new = \<lparr>position = \<lparr>v_x = Some 0, v_y = Some 0, v_z = Some 0\<rparr>, orientation = Unrotated\<rparr>"

datatype child = ReticleChild | ModelChild

record 'n scene =
  children :: "child list"
  pivot :: "'n option"  \<comment> \<open>\<open>pivot.rotation.y\<close> when the scene has a \<open>pivot\<close>\<close>

definition Scene_new :: "'n scene" where
  "Scene_new = \<lparr>children = [], pivot = None\<rparr>"

definition scene_add :: "child \<Rightarrow> child list \<Rightarrow> child list" where
  \<comment> \<open>\<open>Object3D.add\<close>: an object that already has a parent is removed from it first\<close>
  "scene_add c cs = removeAll c cs @ [c]"

record 'n camera =
  projectionMatrix :: "'n matrix4"
  matrix :: "'n matrix4"
  matrixAutoUpdate :: bool

record reticle =
  visible :: bool

datatype 'n ray = DefaultRay | CameraRay 'n 'n "'n camera option"

record 'n raycaster =
  ray :: "'n ray"

definition Raycaster_new :: "'n raycaster" where
  "Raycaster_new = \<lparr>ray = DefaultRay\<rparr>"

record xrsession =
  baseLayer :: bool  \<comment> \<open>an \<open>XRWebGLLayer\<close> has been assigned\<close>

record renderer =
  autoClear :: bool
  vr_enabled :: bool
  vr_referenceSpaceType :: "string option"
  vr_session :: bool  \<comment> \<open>\<open>vr.setSession\<close> was last given a session, not null\<close>

definition WebGLRenderer_new :: renderer where
  "WebGLRenderer_new =
     \<lparr>autoClear = True, vr_enabled = False, vr_referenceSpaceType = None, vr_session = False\<rparr>"

datatype refspace = ReferenceSpace string

text \<open>
  What the rendering library and the \<open>Reticle\<close> helper compute is not part of the app:
  the functions below take it as a parameter.
\<close>

record 'n ext =
  Matrix4_getInverse :: "'n matrix4 \<Rightarrow> 'n matrix4"
  PerspectiveCamera_new :: "'n camera"
  Reticle_new :: "'n camera \<Rightarrow> reticle"
  Reticle_update :: "reticle \<Rightarrow> reticle"

section \<open>The platform\<close>

record 'n viewport =
  vp_x :: 'n
  vp_y :: 'n
  vp_width :: 'n
  vp_height :: 'n

record 'n xrview =
  view_projectionMatrix :: "'n list"
  view_transform_inverse_matrix :: "'n list"
  view_viewport :: "'n viewport"  \<comment> \<open>\<open>session.renderState.baseLayer.getViewport(view)\<close>\<close>

record input_source =
  targetRayMode :: string
  targetRayPose :: bool  \<comment> \<open>\<open>frame.getPose(targetRaySpace, frameOfRef)\<close> is not null\<close>

record 'n xrframe =
  has_getDevicePose :: bool  \<comment> \<open>\<open>"getDevicePose" in frame\<close>\<close>
  getDevicePose :: bool  \<comment> \<open>\<open>frame.getDevicePose(frameOfRef)\<close> is not null\<close>
  getViewerPose :: "'n xrview list option"  \<comment> \<open>the \<open>views\<close> of the viewer pose, \<open>None\<close> for null\<close>
  inputSources :: "input_source list"

record 'n hit =
  hitMatrix :: "'n list"

datatype 'n hit_outcome =
    HitResolved "'n hit list"
  | HitRejected exn
  | HitThrew exn

datatype probe = Resolves bool | Rejects exn

record platform =
  navigator_xr :: bool
  requestHitTestSource :: bool
  isSessionSupported :: probe

text \<open>Calls into the platform and the renderer, in the order the app makes them.\<close>

datatype 'n effect =
    ConsoleLog string
  | ConsoleLogError exn
  | ConsoleWarn string exn
  | IsSessionSupported string
  | AddClickListener
  | RequestSession string
  | AddEndListener
  | AppendCanvas
  | RequestReferenceSpace string
  | RequestAnimationFrame
  | GetDevicePose
  | GetViewerPose
  | SetViewport "'n viewport"
  | UpdateMatrixWorld
  | ReticleUpdate
  | GetPose
  | RequestHitTest "'n ray"
  | Render

section \<open>The AR app\<close>

record 'n app =
  session :: "xrsession option"
  renderer :: "renderer option"
  gl :: "unit option"
  XRReferenceSpaceType :: "string option"
  scene :: "'n scene option"
  model :: "'n mesh option"
  camera :: "'n camera option"
  reticle :: "reticle option"
  frameOfRef :: "refspace option"
  rafId :: "nat option"
  stabilized :: "bool option"
  raycaster :: "'n raycaster option"
  body_classes :: "string set"  \<comment> \<open>\<open>document.body.classList\<close>\<close>
  enter_ar_click :: bool  \<comment> \<open>\<open>onEnterAR\<close> is bound to the click of \<open>#enter-ar\<close>\<close>
  effects :: "'n effect list"

definition App_new :: "'n app" where
  "App_new =
     \<lparr>session = None, renderer = None, gl = None, XRReferenceSpaceType = None, scene = None,
      model = None, camera = None, reticle = None, frameOfRef = None, rafId = None,
      stabilized = None, raycaster = None, body_classes = {}, enter_ar_click = False,
      effects = []\<rparr>"

definition emit :: "'n effect \<Rightarrow> 'n app \<Rightarrow> 'n app" where
  "emit e a = a\<lparr>effects := effects a @ [e]\<rparr>"

definition onNoXRDevice :: "'n app \<Rightarrow> 'n app" where
  "onNoXRDevice a = a\<lparr>body_classes := insert ''unsupported'' (body_classes a)\<rparr>"

text \<open>
  \<open>init\<close> has no \<open>await\<close>: it runs to its end, and the callback of the support probe runs
  after it, when the probe settles.
\<close>

definition init_settled :: "probe \<Rightarrow> 'n app \<Rightarrow> 'n app" where
  "init_settled p a =
     (case p of
        Resolves _ \<Rightarrow> emit (ConsoleLog ''supportsSession immersive-ar ok'') a
      | Rejects _ \<Rightarrow> onNoXRDevice a)"

definition init :: "platform \<Rightarrow> 'n app \<Rightarrow> 'n app" where
  "init p a =
     (if navigator_xr p \<and> requestHitTestSource p then
        let a1 = emit (ConsoleLog ''navigator.xr && XRSession.prototype.requestHitTestSource ok'') a;
            a2 = emit (IsSessionSupported ''immersive-ar'') a1;
            a3 = emit AddClickListener (a2\<lparr>enter_ar_click := True\<rparr>)
        in init_settled (isSessionSupported p) a3
      else onNoXRDevice a)"

definition tick :: "'n app \<Rightarrow> 'n app \<times> js_error option" where
  \<comment> \<open>the handle the platform returns is a running number\<close>
  "tick a =
     (case session a of
        None \<Rightarrow> (a, Some TypeError)
      | Some _ \<Rightarrow>
          (emit RequestAnimationFrame
             (a\<lparr>rafId := Some (case rafId a of None \<Rightarrow> 1 | Some n \<Rightarrow> Suc n)\<rparr>), None))"

text \<open>\<open>onSessionStarted\<close> up to its \<open>await\<close>, and from there on.\<close>

definition onSessionStarted_begin :: "'n ext \<Rightarrow> ('n::zero) app \<Rightarrow> 'n app \<times> js_error option" where
  "onSessionStarted_begin x a =
     (let a1 = a\<lparr>body_classes := insert ''ar'' (body_classes a)\<rparr>;
          a2 = a1\<lparr>renderer := Some (WebGLRenderer_new\<lparr>autoClear := False\<rparr>)\<rparr>;
          a3 = a2\<lparr>gl := Some ()\<rparr>;
          a4 = a3\<lparr>renderer := map_option (\<lambda>r. r\<lparr>vr_enabled := True\<rparr>) (renderer a3)\<rparr>;
          a5 = a4\<lparr>XRReferenceSpaceType := Some ''local''\<rparr>;
          a6 = a5\<lparr>renderer := map_option
                  (\<lambda>r. r\<lparr>vr_referenceSpaceType := XRReferenceSpaceType a5, vr_session := (session a5 \<noteq> None)\<rparr>)
                  (renderer a5)\<rparr>
      in case session a6 of
           None \<Rightarrow> (a6, Some TypeError)
         | Some s \<Rightarrow>
             let a7 = a6\<lparr>session := Some (s\<lparr>baseLayer := True\<rparr>)\<rparr>;
                 a8 = a7\<lparr>scene := Some Scene_new\<rparr>;
                 a9 = a8\<lparr>model := Some Mesh_new\<rparr>;
                 cam = (PerspectiveCamera_new x)\<lparr>matrixAutoUpdate := False\<rparr>;
                 a10 = a9\<lparr>camera := Some cam\<rparr>;
                 a11 = a10\<lparr>reticle := Some (Reticle_new x cam)\<rparr>;
                 a12 = a11\<lparr>scene := map_option
                          (\<lambda>sc. sc\<lparr>children := scene_add ReticleChild (children sc)\<rparr>) (scene a11)\<rparr>
             in (emit (RequestReferenceSpace ''local'') a12, None))"

definition onSessionStarted_resume :: "refspace \<Rightarrow> 'n app \<Rightarrow> 'n app \<times> js_error option" where
  "onSessionStarted_resume sp a = tick (a\<lparr>frameOfRef := Some sp\<rparr>)"

text \<open>
  \<open>onEnterAR\<close>: the request, and the two callbacks of its promise.  \<open>onSessionStarted\<close> is
  called without \<open>await\<close>, so an error in it rejects a promise nobody reads.
\<close>

definition onEnterAR :: "'n app \<Rightarrow> 'n app" where
  "onEnterAR a = emit (RequestSession ''immersive-ar'') a"

definition onEnterAR_then :: "'n ext \<Rightarrow> xrsession \<Rightarrow> ('n::zero) app \<Rightarrow> 'n app" where
  "onEnterAR_then x xrSession a =
     (let a1 = a\<lparr>session := Some xrSession\<rparr>;
          a2 = emit (ConsoleLog ''requestSession immersive-ar ok'') a1;
          a3 = emit AddEndListener a2;
          a4 = emit AppendCanvas a3
      in fst (onSessionStarted_begin x a4))"

definition onEnterAR_catch :: "exn \<Rightarrow> 'n app \<Rightarrow> 'n app" where
  "onEnterAR_catch error a =
     onNoXRDevice (emit (ConsoleWarn ''requestSession immersive-ar error: '' error) a)"

definition onXRSessionEnded :: "'n app \<Rightarrow> 'n app" where
  "onXRSessionEnded a =
     (let a1 = emit (ConsoleLog ''onXRSessionEnded'') a;
          a2 = a1\<lparr>body_classes := body_classes a1 - {''ar''}\<rparr>;
          a3 = a2\<lparr>body_classes := body_classes a2 - {''stabilized''}\<rparr>
      in case renderer a3 of
           None \<Rightarrow> a3
         | Some r \<Rightarrow> a3\<lparr>renderer := Some (r\<lparr>vr_session := False\<rparr>), stabilized := Some False\<rparr>)"

text \<open>
  \<open>placeModel\<close> up to its \<open>await\<close>.  The function is \<open>async\<close>: it never raises into its
  caller, it returns a promise.
\<close>

datatype place_status = Returned | Awaiting

definition placeModel_begin :: "('n::zero) app \<Rightarrow> 'n app \<times> place_status" where
  "placeModel_begin a =
     (if session a = None then (a, Returned)
      else
        let rc = (case raycaster a of Some r \<Rightarrow> r | None \<Rightarrow> Raycaster_new);
            a1 = a\<lparr>raycaster := Some rc\<rparr>;
            a2 = a1\<lparr>raycaster := Some (rc\<lparr>ray := CameraRay 0 0 (camera a1)\<rparr>)\<rparr>;
            xrray = (case raycaster a2 of Some r \<Rightarrow> ray r | None \<Rightarrow> DefaultRay)
        in (emit (RequestHitTest xrray) a2, Awaiting))"

text \<open>
  \<open>placeModel\<close> from the hit test's outcome on, in the state the app has by then.  The
  second component is the error the returned promise is rejected with, if any.
\<close>

definition placeModel_resume :: "'n hit_outcome \<Rightarrow> ('n::uminus) app \<Rightarrow> 'n app \<times> js_error option" where
  "placeModel_resume outcome a =
     (let (a1, hits) =
            (case outcome of
               HitResolved hs \<Rightarrow> (a, Some hs)
             | HitRejected e \<Rightarrow> (emit (ConsoleLogError e) a, None)
             | HitThrew e \<Rightarrow> (emit (ConsoleLogError e) a, None))
      in case hits of
           None \<Rightarrow> (a1, None)
         | Some [] \<Rightarrow> (a1, None)
         | Some (hit # _) \<Rightarrow>
            (let hitMatrix' = Matrix4_fromArray (hitMatrix hit)
             in case model a1 of
                  None \<Rightarrow> (a1, Some TypeError)
                | Some m \<Rightarrow>
                   (let m1 = m\<lparr>position := setFromMatrixPosition hitMatrix'\<rparr>;
                        a2 = a1\<lparr>model := Some m1\<rparr>
                    in case scene a2 of
                         None \<Rightarrow> (a2, Some TypeError)
                       | Some sc \<Rightarrow>
                          (let a3 = a2\<lparr>scene := Some (sc\<lparr>children := scene_add ModelChild (children sc)\<rparr>)\<rparr>
                           in case camera a3 of
                                None \<Rightarrow> (a3, Some TypeError)
                              | Some c \<Rightarrow>
                                 (let camPosition = setFromMatrixPosition (matrix c);
                                      m2 = m1\<lparr>orientation :=
                                             LookAt \<lparr>v_x = v_x camPosition, v_y = v_y (position m1),
                                                     v_z = v_z camPosition\<rparr>\<rparr>;
                                      a4 = a3\<lparr>model := Some m2\<rparr>
                                  in case pivot sc of
                                       None \<Rightarrow> (a4, None)
                                     | Some rotation_y \<Rightarrow>
                                         (a4\<lparr>model := Some (m2\<lparr>orientation :=
                                                RotateY (- rotation_y) (orientation m2)\<rparr>)\<rparr>, None))))))"

definition processXRInput :: "'n xrframe \<Rightarrow> ('n::zero) app \<Rightarrow> 'n app" where
  "processXRInput frame a =
     (case filter (\<lambda>input. targetRayMode input = ''screen'') (inputSources frame) of
        [] \<Rightarrow> a
      | source # _ \<Rightarrow>
          let a1 = emit GetPose a
          in if targetRayPose source then fst (placeModel_begin a1) else a1)"

text \<open>The body of the loop over the views of \<open>onXRFrame\<close>, and the loop.\<close>

definition view_body :: "'n ext \<Rightarrow> 'n xrframe \<Rightarrow> 'n xrview \<Rightarrow> ('n::zero) app \<Rightarrow> 'n app \<times> js_error option" where
  "view_body x frame view a =
     (case renderer a of
        None \<Rightarrow> (a, Some TypeError)
      | Some _ \<Rightarrow>
         (let a1 = emit (SetViewport (view_viewport view)) a
          in case camera a1 of
               None \<Rightarrow> (a1, Some TypeError)
             | Some c \<Rightarrow>
                (let c1 = c\<lparr>projectionMatrix := Matrix4_fromArray (view_projectionMatrix view)\<rparr>;
                     viewMatrix = Matrix4_fromArray (view_transform_inverse_matrix view);
                     c2 = c1\<lparr>matrix := Matrix4_getInverse x viewMatrix\<rparr>;
                     a2 = emit UpdateMatrixWorld (a1\<lparr>camera := Some c2\<rparr>)
                 in case reticle a2 of
                      None \<Rightarrow> (a2, Some TypeError)
                    | Some r \<Rightarrow>
                       (let a3 = emit ReticleUpdate (a2\<lparr>reticle := Some (Reticle_update x r)\<rparr>);
                            a4 = processXRInput frame a3
                        in case renderer a4 of
                             None \<Rightarrow> (a4, Some TypeError)
                           | Some _ \<Rightarrow> (emit Render a4, None)))))"

fun view_loop :: "'n ext \<Rightarrow> 'n xrframe \<Rightarrow> 'n xrview list \<Rightarrow> ('n::zero) app \<Rightarrow> 'n app \<times> js_error option" where
  "view_loop x frame [] a = (a, None)"
| "view_loop x frame (view # views) a =
     (case view_body x frame view a of
        (a', Some e) \<Rightarrow> (a', Some e)
      | (a', None) \<Rightarrow> view_loop x frame views a')"

definition pose_available :: "'n xrframe \<Rightarrow> bool" where
  \<comment> \<open>\<open>pose != null\<close>, for the pose \<open>onXRFrame\<close> reads first\<close>
  "pose_available frame =
     (if has_getDevicePose frame then getDevicePose frame else getViewerPose frame \<noteq> None)"

definition onXRFrame :: "'n ext \<Rightarrow> 'n \<Rightarrow> 'n xrframe \<Rightarrow> ('n::zero) app \<Rightarrow> 'n app \<times> js_error option" where
  "onXRFrame x time frame a =
     (let a0 = emit (if has_getDevicePose frame then GetDevicePose else GetViewerPose) a
      in case tick a0 of
           (a1, Some e) \<Rightarrow> (a1, Some e)
         | (a1, None) \<Rightarrow>
             if \<not> pose_available frame then (a1, None)
             else
              (let a2 = emit GetViewerPose a1
               in case getViewerPose frame of
                    None \<Rightarrow> (a2, Some TypeError)
                  | Some views \<Rightarrow>
                      (case view_loop x frame views a2 of
                         (a3, Some e) \<Rightarrow> (a3, Some e)
                       | (a3, None) \<Rightarrow>
                           (case reticle a3 of
                              None \<Rightarrow> (a3, Some TypeError)
                            | Some r \<Rightarrow>
                                if visible r \<and> \<not> truthy (stabilized a3) then
                                  (let a4 = a3\<lparr>stabilized := Some True\<rparr>
                                   in (a4\<lparr>body_classes := insert ''stabilized'' (body_classes a4)\<rparr>, None))
                                else (a3, None)))))"

section \<open>The scene animation script\<close>

text \<open>
  The module-level variables of \<open>script.js\<close> and the objects its handlers write to.  What
  the handlers read from \<open>window\<close>, the event and the clock is an argument.
\<close>

record 'n window =
  innerWidth :: 'n
  innerHeight :: 'n
  devicePixelRatio :: 'n
  scrollY :: 'n

record 'n mouse_event =
  clientX :: 'n
  clientY :: 'n

record 'n script =
  sizes_width :: 'n
  sizes_height :: 'n
  camera_aspect :: 'n
  camera_position :: "'n vector3"
  projection_aspect :: 'n  \<comment> \<open>the aspect \<open>updateProjectionMatrix\<close> last computed the projection from\<close>
  renderer_size :: "'n \<times> 'n"
  renderer_pixelRatio :: 'n
  mouseX :: 'n
  mouseY :: 'n
  targetX :: 'n
  targetY :: 'n
  windowX :: 'n
  windowY :: 'n
  sphere_position :: "'n vector3"
  sphere_rotation :: "'n vector3"
  renders :: nat  \<comment> \<open>calls of \<open>renderer.render\<close>\<close>
  frames_requested :: nat  \<comment> \<open>calls of \<open>window.requestAnimationFrame\<close>\<close>

definition script_load :: "('n::{zero,numeral,inverse,ord}) window \<Rightarrow> 'n script" where
  \<comment> \<open>the top level of the script, up to the first call of \<open>tick\<close>\<close>
  "script_load w =
     \<lparr>sizes_width = innerWidth w, sizes_height = innerHeight w,
      camera_aspect = innerWidth w / innerHeight w,
      camera_position = \<lparr>v_x = 0, v_y = 0, v_z = 2\<rparr>,
      projection_aspect = innerWidth w / innerHeight w,
      renderer_size = (innerWidth w, innerHeight w),
      renderer_pixelRatio = min (devicePixelRatio w) 2,
      mouseX = 0, mouseY = 0, targetX = 0, targetY = 0,
      windowX = innerWidth w / 2, windowY = innerHeight w / 2,
      sphere_position = \<lparr>v_x = 0, v_y = 0, v_z = 0\<rparr>,
      sphere_rotation = \<lparr>v_x = 0, v_y = 0, v_z = 0\<rparr>,
      renders = 0, frames_requested = 0\<rparr>"

definition on_resize :: "('n::{numeral,inverse,ord}) window \<Rightarrow> 'n script \<Rightarrow> 'n script" where
  "on_resize w s =
     (let s1 = s\<lparr>sizes_width := innerWidth w\<rparr>;
          s2 = s1\<lparr>sizes_height := innerHeight w\<rparr>;
          s3 = s2\<lparr>camera_aspect := sizes_width s2 / sizes_height s2\<rparr>;
          s4 = s3\<lparr>projection_aspect := camera_aspect s3\<rparr>;
          s5 = s4\<lparr>renderer_size := (sizes_width s4, sizes_height s4)\<rparr>
      in s5\<lparr>renderer_pixelRatio := min (devicePixelRatio w) 2\<rparr>)"

definition on_mousemove :: "('n::minus) mouse_event \<Rightarrow> 'n script \<Rightarrow> 'n script" where
  "on_mousemove event s =
     (let s1 = s\<lparr>mouseX := clientX event - windowX s\<rparr>
      in s1\<lparr>mouseY := clientY event - windowY s1\<rparr>)"

definition on_scroll :: "('n::{numeral,inverse,power}) window \<Rightarrow> 'n script \<Rightarrow> 'n script" where
  "on_scroll w s =
     s\<lparr>sphere_position := (sphere_position s)\<lparr>v_y := scrollY w * 0.001\<rparr>\<rparr>"

definition script_tick :: "('n::{numeral,uminus,minus,inverse,power}) \<Rightarrow> 'n script \<Rightarrow> 'n script" where
  \<comment> \<open>\<open>tick\<close>, with the value of \<open>clock.getElapsedTime()\<close>\<close>
  "script_tick elapsedTime s =
     (let s1 = s\<lparr>targetX := mouseX s * 0.001\<rparr>;
          s2 = s1\<lparr>targetY := mouseY s1 * 0.001\<rparr>;
          s3 = s2\<lparr>sphere_rotation := (sphere_rotation s2)\<lparr>v_y := 0.5 * elapsedTime\<rparr>\<rparr>;
          s4 = s3\<lparr>sphere_rotation := (sphere_rotation s3)
                 \<lparr>v_x := v_x (sphere_rotation s3) + 0.05 * (targetY s3 - v_x (sphere_rotation s3))\<rparr>\<rparr>;
          s5 = s4\<lparr>sphere_rotation := (sphere_rotation s4)
                 \<lparr>v_y := v_y (sphere_rotation s4) + 0.5 * (targetX s4 - v_y (sphere_rotation s4))\<rparr>\<rparr>;
          s6 = s5\<lparr>sphere_position := (sphere_position s5)
                 \<lparr>v_z := v_z (sphere_position s5) + - 0.05 * (targetY s5 - v_x (sphere_rotation s5))\<rparr>\<rparr>;
          s7 = s6\<lparr>renders := Suc (renders s6)\<rparr>
      in s7\<lparr>frames_requested := Suc (frames_requested s7)\<rparr>)"

section \<open>A session as a sequence of callbacks\<close>

definition reticle_visible :: "'n app \<Rightarrow> bool" where
  \<comment> \<open>\<open>this.reticle.visible\<close>, for a reticle that exists\<close>
  "reticle_visible a = (case reticle a of None \<Rightarrow> False | Some r \<Rightarrow> visible r)"

definition session_running :: "'n app \<Rightarrow> bool" where
  \<comment> \<open>the fields \<open>onSessionStarted\<close> assigns are there, and the scene it made has no \<open>pivot\<close>\<close>
  "session_running a =
     (session a \<noteq> None \<and> renderer a \<noteq> None \<and> camera a \<noteq> None \<and> reticle a \<noteq> None \<and>
      model a \<noteq> None \<and> (case scene a of None \<Rightarrow> False | Some sc \<Rightarrow> pivot sc = None))"

definition reticle_settled :: "reticle \<Rightarrow> 'n app \<Rightarrow> 'n app" where
  \<comment> \<open>Modelled from the spec: the \<open>Reticle\<close> helper is not among the sources.  The spec says
      the reticle indicator is updated from a continuous hit test; when that hit test
      settles, between two callbacks of the app, the reticle may be left in any state \<open>r\<close>,
      and nothing but the reticle changes.\<close>
  "reticle_settled r a = a\<lparr>reticle := map_option (\<lambda>_. r) (reticle a)\<rparr>"

text \<open>The callbacks that run between the start of a session and its end.\<close>

datatype 'n event =
    Frame 'n "'n xrframe"
  | ReticleSettled reticle
  | HitSettled "'n hit_outcome"

definition step :: "'n ext \<Rightarrow> 'n event \<Rightarrow> ('n::{zero,uminus}) app \<Rightarrow> 'n app" where
  \<comment> \<open>a callback that raises leaves the state it had reached, and the next one runs\<close>
  "step x ev a =
     (case ev of
        Frame time frame \<Rightarrow> fst (onXRFrame x time frame a)
      | ReticleSettled r \<Rightarrow> reticle_settled r a
      | HitSettled outcome \<Rightarrow> fst (placeModel_resume outcome a))"

fun run :: "'n ext \<Rightarrow> 'n event list \<Rightarrow> ('n::{zero,uminus}) app \<Rightarrow> 'n app" where
  "run x [] a = a"
| "run x (ev # evs) a = run x evs (step x ev a)"

definition fires :: "'n ext \<Rightarrow> 'n event \<Rightarrow> ('n::{zero,uminus}) app \<Rightarrow> bool" where
  \<comment> \<open>the callback takes the \<open>stabilized\<close> flag from falsy to true\<close>
  "fires x ev a = (\<not> truthy (stabilized a) \<and> truthy (stabilized (step x ev a)))"

fun transitions :: "'n ext \<Rightarrow> 'n event list \<Rightarrow> ('n::{zero,uminus}) app \<Rightarrow> nat" where
  "transitions x [] a = 0"
| "transitions x (ev # evs) a =
     (if fires x ev a then 1 else 0) + transitions x evs (step x ev a)"

definition same_page :: "'n app \<Rightarrow> 'n app \<Rightarrow> bool" where
  "same_page a b = (stabilized b = stabilized a \<and> body_classes b = body_classes a)"

definition work_effects :: "'n effect list \<Rightarrow> 'n effect list \<Rightarrow> bool" where
  \<comment> \<open>\<open>after\<close> extends \<open>before\<close> by calls none of which requests a frame\<close>
  "work_effects before after =
     (\<exists>rest. after = before @ rest \<and> RequestAnimationFrame \<notin> set rest)"

section \<open>Concrete inputs\<close>

text \<open>
  The theorems below hold for every behaviour \<open>x\<close> of the library.  To run the handlers on
  concrete inputs one behaviour is fixed: \<open>getInverse\<close> returns its argument, which is the
  inverse of the identity matrix the example view carries.
\<close>

definition identity16 :: "real list" where
  "identity16 = [1, 0, 0, 0,  0, 1, 0, 0,  0, 0, 1, 0,  0, 0, 0, 1]"

definition example_ext :: "real ext" where
  "example_ext =
     \<lparr>Matrix4_getInverse = (\<lambda>m. m),
      PerspectiveCamera_new =
        \<lparr>projectionMatrix = Matrix4_new, matrix = Matrix4_new, matrixAutoUpdate = True\<rparr>,
      Reticle_new = (\<lambda>c. \<lparr>visible = False\<rparr>),
      Reticle_update = (\<lambda>r. r)\<rparr>"

definition example_platform :: platform where
  "example_platform =
     \<lparr>navigator_xr = True, requestHitTestSource = True, isSessionSupported = Resolves True\<rparr>"

definition desktop_platform :: platform where
  \<comment> \<open>WebXR and hit testing are there, \<open>isSessionSupported("immersive-ar")\<close> answers \<open>false\<close>\<close>
  "desktop_platform =
     \<lparr>navigator_xr = True, requestHitTestSource = True, isSessionSupported = Resolves False\<rparr>"

definition example_started :: "real app" where
  \<comment> \<open>the app after \<open>init\<close>, a click on Enter AR, the session and its reference space\<close>
  "example_started =
     fst (onSessionStarted_resume (ReferenceSpace ''local'')
       (onEnterAR_then example_ext \<lparr>baseLayer = False\<rparr>
          (onEnterAR (init example_platform App_new))))"

definition example_view :: "real xrview" where
  "example_view =
     \<lparr>view_projectionMatrix = identity16, view_transform_inverse_matrix = identity16,
      view_viewport = \<lparr>vp_x = 0, vp_y = 0, vp_width = 1080, vp_height = 1920\<rparr>\<rparr>"

definition example_frame :: "real xrframe" where
  "example_frame =
     \<lparr>has_getDevicePose = False, getDevicePose = False, getViewerPose = Some [example_view],
      inputSources = [\<lparr>targetRayMode = ''screen'', targetRayPose = True\<rparr>]\<rparr>"

definition frame_without_pose :: "real xrframe" where
  "frame_without_pose =
     \<lparr>has_getDevicePose = False, getDevicePose = False, getViewerPose = None,
      inputSources = []\<rparr>"

definition reticle_found :: "real app" where
  \<comment> \<open>a first frame, after which the reticle's hit test finds a surface\<close>
  "reticle_found =
     reticle_settled \<lparr>visible = True\<rparr> (fst (onXRFrame example_ext 0 example_frame example_started))"

definition near_hit :: "real hit" where
  "near_hit = \<lparr>hitMatrix = [1, 0, 0, 0,  0, 1, 0, 0,  0, 0, 1, 0,  2, 0, - 3, 1]\<rparr>"

definition far_hit :: "real hit" where
  "far_hit = \<lparr>hitMatrix = [1, 0, 0, 0,  0, 1, 0, 0,  0, 0, 1, 0,  5, 1, - 9, 1]\<rparr>"

definition example_window :: "real window" where
  "example_window =
     \<lparr>innerWidth = 800, innerHeight = 600, devicePixelRatio = 1, scrollY = 1000\<rparr>"

definition pointer_low :: "real mouse_event" where
  "pointer_low = \<lparr>clientX = 400, clientY = 1300\<rparr>"

definition pointer_centre :: "real mouse_event" where
  "pointer_centre = \<lparr>clientX = 400, clientY = 300\<rparr>"

definition after_a_move :: "real script" where
  \<comment> \<open>the pointer went low, a frame was drawn at 1 s, the pointer came back to the centre\<close>
  "after_a_move =
     on_mousemove pointer_centre
       (script_tick 1 (on_mousemove pointer_low (script_load example_window)))"

definition freshly_loaded :: "real script" where
  \<comment> \<open>the pointer is at the centre and no frame has been drawn since the load\<close>
  "freshly_loaded = on_mousemove pointer_centre (script_load example_window)"

section \<open>Placing the model\<close>

lemma elem_fromArray: "i < 16 \<Longrightarrow> elem (Matrix4_fromArray arr) i = js_get arr i"
  by (simp add: elem_def Matrix4_fromArray_def)

lemma fromArray_identity16: "Matrix4_fromArray identity16 = Matrix4_new"
  by (simp add: Matrix4_fromArray_def identity16_def Matrix4_new_def js_get_def
      upt_rec [of _ "numeral _"] nth_Cons')

lemma example_started_eq:
  "example_started =
     \<lparr>session = Some \<lparr>baseLayer = True\<rparr>,
      renderer = Some \<lparr>autoClear = False, vr_enabled = True,
                        vr_referenceSpaceType = Some ''local'', vr_session = True\<rparr>,
      gl = Some (), XRReferenceSpaceType = Some ''local'',
      scene = Some \<lparr>children = [ReticleChild], pivot = None\<rparr>,
      model = Some Mesh_new,
      camera = Some \<lparr>projectionMatrix = Matrix4_new, matrix = Matrix4_new, matrixAutoUpdate = False\<rparr>,
      reticle = Some \<lparr>visible = False\<rparr>,
      frameOfRef = Some (ReferenceSpace ''local''), rafId = Some 1,
      stabilized = None, raycaster = None, body_classes = {''ar''}, enter_ar_click = True,
      effects =
        [ConsoleLog ''navigator.xr && XRSession.prototype.requestHitTestSource ok'',
         IsSessionSupported ''immersive-ar'', AddClickListener,
         ConsoleLog ''supportsSession immersive-ar ok'',
         RequestSession ''immersive-ar'',
         ConsoleLog ''requestSession immersive-ar ok'', AddEndListener,
         AppendCanvas, RequestReferenceSpace ''local'', RequestAnimationFrame]\<rparr>"
  by (simp add: example_started_def onSessionStarted_resume_def onEnterAR_then_def onEnterAR_def
      init_def init_settled_def example_platform_def App_new_def emit_def Let_def tick_def
      onSessionStarted_begin_def Scene_new_def scene_add_def WebGLRenderer_new_def example_ext_def)

text \<open>
  The state \<open>session_running\<close> describes is the one a started session has: the handlers
  of \<open>onEnterAR\<close> and \<open>onSessionStarted\<close> establish it.
\<close>

lemma session_start_running:
  "session_running (fst (onSessionStarted_resume sp (onEnterAR_then x xrSession a)))"
  by (simp add: onSessionStarted_resume_def onEnterAR_then_def emit_def Let_def tick_def
      onSessionStarted_begin_def Scene_new_def session_running_def)

text \<open>
  C1. When the placement hit test resolves to a list with at least one entry, the model's
  position becomes the position component (the entries 12, 13 and 14 of the column-major
  transform) of the first entry, whatever the entries after it are, and the model is
  turned by \<open>lookAt\<close> towards the point that has the camera's current x and z and the
  model's own new y.  The model, the scene and the camera are those of a started session,
  whose scene has no pivot.
\<close>

theorem placeModel_places_nearest_hit:
  assumes "model a = Some m" and "scene a = Some sc" and "pivot sc = None"
    and "camera a = Some c"
  shows "snd (placeModel_resume (HitResolved (nearest # others)) a) = None
    \<and> map_option position (model (fst (placeModel_resume (HitResolved (nearest # others)) a)))
        = Some \<lparr>v_x = js_get (hitMatrix nearest) 12, v_y = js_get (hitMatrix nearest) 13,
                 v_z = js_get (hitMatrix nearest) 14\<rparr>
    \<and> map_option orientation (model (fst (placeModel_resume (HitResolved (nearest # others)) a)))
        = Some (LookAt \<lparr>v_x = elem (matrix c) 12, v_y = js_get (hitMatrix nearest) 13,
                         v_z = elem (matrix c) 14\<rparr>)
    \<and> placeModel_resume (HitResolved (nearest # others)) a
        = placeModel_resume (HitResolved [nearest]) a"
  using assms
  by (simp add: placeModel_resume_def Let_def setFromMatrixPosition_def elem_fromArray)

text \<open>
  C1, at a concrete input: in the started example session a hit at (2, 0, -3), followed by
  a farther one, puts the model at (2, 0, -3), looking at the camera's x and z, which are 0.
\<close>

theorem placeModel_places_nearest_hit_witness:
  "model example_started = Some Mesh_new
   \<and> scene example_started = Some \<lparr>children = [ReticleChild], pivot = None\<rparr>
   \<and> pivot \<lparr>children = [ReticleChild], pivot = (None :: real option)\<rparr> = None
   \<and> camera example_started
       = Some \<lparr>projectionMatrix = Matrix4_new, matrix = Matrix4_new, matrixAutoUpdate = False\<rparr>
   \<and> snd (placeModel_resume (HitResolved [near_hit, far_hit]) example_started) = None
   \<and> map_option position
        (model (fst (placeModel_resume (HitResolved [near_hit, far_hit]) example_started)))
       = Some \<lparr>v_x = Some 2, v_y = Some 0, v_z = Some (- 3)\<rparr>
   \<and> map_option orientation
        (model (fst (placeModel_resume (HitResolved [near_hit, far_hit]) example_started)))
       = Some (LookAt \<lparr>v_x = Some 0, v_y = Some 0, v_z = Some 0\<rparr>)"
proof -
  have m: "model example_started = Some Mesh_new"
    and sc: "scene example_started = Some \<lparr>children = [ReticleChild], pivot = None\<rparr>"
    and c: "camera example_started
       = Some \<lparr>projectionMatrix = Matrix4_new, matrix = Matrix4_new, matrixAutoUpdate = False\<rparr>"
    by (simp_all add: example_started_eq)
  have p: "pivot \<lparr>children = [ReticleChild], pivot = (None :: real option)\<rparr> = None"
    by simp
  have hit: "js_get (hitMatrix near_hit) 12 = Some 2" "js_get (hitMatrix near_hit) 13 = Some 0"
    "js_get (hitMatrix near_hit) 14 = Some (- 3)"
    by (simp_all add: near_hit_def js_get_def)
  have cam: "elem (Matrix4_new :: real matrix4) 12 = Some 0" "elem (Matrix4_new :: real matrix4) 14 = Some 0"
    by (simp_all add: elem_def Matrix4_new_def)
  note t = placeModel_places_nearest_hit [OF m sc p c, of near_hit "[far_hit]"]
  have r1: "snd (placeModel_resume (HitResolved [near_hit, far_hit]) example_started) = None"
    using t by (rule conjunct1)
  have r2: "map_option position
        (model (fst (placeModel_resume (HitResolved [near_hit, far_hit]) example_started)))
       = Some \<lparr>v_x = Some 2, v_y = Some 0, v_z = Some (- 3)\<rparr>"
    using t [THEN conjunct2, THEN conjunct1] by (simp only: hit)
  have r3: "map_option orientation
        (model (fst (placeModel_resume (HitResolved [near_hit, far_hit]) example_started)))
       = Some (LookAt \<lparr>v_x = Some 0, v_y = Some 0, v_z = Some 0\<rparr>)"
    using t [THEN conjunct2, THEN conjunct2, THEN conjunct1]
    by (simp only: hit cam camera.select_convs)
  from m sc c p r1 r2 r3 show ?thesis by blast
qed

text \<open>
  C4. When the hit test throws or rejects, \<open>placeModel\<close> logs the error and does nothing
  else: the state is the one it found, with the error on the console, the returned promise
  is not rejected, and so the frame that was requested still comes.
\<close>

theorem placeModel_hit_test_failure:
  "placeModel_resume (HitRejected e) a = (emit (ConsoleLogError e) a, None)
   \<and> placeModel_resume (HitThrew e) a = (emit (ConsoleLogError e) a, None)
   \<and> emit (ConsoleLogError e) a = a\<lparr>effects := effects a @ [ConsoleLogError e]\<rparr>"
  by (simp add: placeModel_resume_def emit_def)

text \<open>
  C10. Without a session \<open>placeModel\<close> returns at once: no hit test is requested and the
  state, the list of calls made included, is unchanged.
\<close>

theorem placeModel_without_session:
  "session a = None \<Longrightarrow> placeModel_begin a = (a, Returned)"
  by (simp add: placeModel_begin_def)

text \<open>C10, at a concrete input: the app before any session.\<close>

theorem placeModel_without_session_witness:
  "session (App_new :: real app) = None
   \<and> placeModel_begin (App_new :: real app) = (App_new, Returned)"
proof -
  have h: "session (App_new :: real app) = None"
    by (simp add: App_new_def)
  show ?thesis
    using h placeModel_without_session [OF h] by simp
qed

section \<open>The end of a session\<close>

text \<open>
  C5. Whatever the state, after the handler of the session's end the body has neither the
  class \<open>ar\<close> nor the class \<open>stabilized\<close>.
\<close>

theorem onXRSessionEnded_clears_classes:
  "''ar'' \<notin> body_classes (onXRSessionEnded a)
   \<and> ''stabilized'' \<notin> body_classes (onXRSessionEnded a)"
  by (simp add: onXRSessionEnded_def emit_def Let_def split: option.split)

section \<open>The frame callback: what is called, in which order\<close>

lemma work_effects_refl: "work_effects es es"
  by (simp add: work_effects_def)

lemma work_effects_trans:
  "work_effects es es' \<Longrightarrow> work_effects es' es'' \<Longrightarrow> work_effects es es''"
  by (auto simp: work_effects_def)

lemma work_effects_emit:
  "e \<noteq> RequestAnimationFrame \<Longrightarrow> work_effects es (effects a) \<Longrightarrow>
     work_effects es (effects (emit e a))"
  by (auto simp: work_effects_def emit_def)

lemma placeModel_begin_effects: "work_effects (effects a) (effects (fst (placeModel_begin a)))"
  by (simp add: placeModel_begin_def Let_def work_effects_emit work_effects_refl)

lemma processXRInput_effects: "work_effects (effects a) (effects (processXRInput frame a))"
proof -
  have "work_effects (effects a) (effects (emit GetPose a))"
    by (simp add: work_effects_emit work_effects_refl)
  moreover have "work_effects (effects (emit GetPose a))
      (effects (fst (placeModel_begin (emit GetPose a))))"
    by (rule placeModel_begin_effects)
  ultimately show ?thesis
    by (auto simp: processXRInput_def Let_def work_effects_refl split: list.split
        intro: work_effects_trans)
qed

lemma view_body_effects: "work_effects (effects a) (effects (fst (view_body x frame view a)))"
proof -
  have step: "\<And>b. work_effects (effects a) (effects b) \<Longrightarrow>
      work_effects (effects a) (effects (processXRInput frame b))"
    using processXRInput_effects work_effects_trans by blast
  show ?thesis
    unfolding view_body_def Let_def
    by (auto split: option.split intro!: work_effects_emit step simp: work_effects_refl)
qed

lemma view_loop_effects:
  "work_effects (effects a) (effects (fst (view_loop x frame views a)))"
proof (induction views arbitrary: a)
  case Nil
  show ?case by (simp add: work_effects_refl)
next
  case (Cons view views)
  show ?case
  proof (cases "view_body x frame view a")
    case (Pair a' err)
    have a': "work_effects (effects a) (effects a')"
      using view_body_effects [of a x frame view] Pair by simp
    show ?thesis
    proof (cases err)
      case None
      with Pair a' Cons.IH [of a'] show ?thesis
        by (auto intro: work_effects_trans)
    next
      case (Some e)
      with Pair a' show ?thesis by simp
    qed
  qed
qed

text \<open>
  C3. In a frame callback of an app that has a session, the calls made are: the reading
  of the frame's pose, then the request of the next frame, then the rest, and the rest
  (setting the viewport, updating the camera and the reticle, processing the input,
  rendering) holds no second request.  When the pose is not available the rest is empty:
  nothing is rendered, the next frame is requested all the same and the callback ends
  without error.
\<close>

theorem onXRFrame_requests_next_frame_first:
  assumes "session a \<noteq> None"
  shows "\<exists>rest. effects (fst (onXRFrame x t frame a)) =
            effects a @ [if has_getDevicePose frame then GetDevicePose else GetViewerPose,
                         RequestAnimationFrame] @ rest
          \<and> RequestAnimationFrame \<notin> set rest
          \<and> (\<not> pose_available frame \<longrightarrow> rest = [] \<and> snd (onXRFrame x t frame a) = None)"
proof -
  define q :: "'a effect"
    where "q = (if has_getDevicePose frame then GetDevicePose else GetViewerPose)"
  define a1 where "a1 = fst (tick (emit q a))"
  from assms have tick: "tick (emit q a) = (a1, None)"
    and e1: "effects a1 = effects a @ [q, RequestAnimationFrame]"
    by (auto simp: a1_def tick_def emit_def)
  show ?thesis
  proof (cases "pose_available frame")
    case False
    with tick e1 show ?thesis
      by (simp add: onXRFrame_def Let_def q_def)
  next
    case True
    show ?thesis
    proof (cases "getViewerPose frame")
      case None
      with True tick e1 show ?thesis
        by (simp add: onXRFrame_def Let_def q_def emit_def)
    next
      case (Some views)
      define a2 where "a2 = emit GetViewerPose a1"
      obtain a3 err where loop: "view_loop x frame views a2 = (a3, err)"
        by (cases "view_loop x frame views a2")
      have "work_effects (effects a2) (effects a3)"
        using view_loop_effects [of a2 x frame views] loop by simp
      then obtain r where r: "effects a3 = effects a2 @ r" "RequestAnimationFrame \<notin> set r"
        by (auto simp: work_effects_def)
      have e3: "effects a3 = effects a @ [q, RequestAnimationFrame] @ (GetViewerPose # r)"
        using r e1 by (simp add: a2_def emit_def)
      have "effects (fst (onXRFrame x t frame a)) = effects a3"
        using True Some tick loop
        by (auto simp: onXRFrame_def Let_def q_def a2_def split: option.split)
      with e3 r True show ?thesis
        by (intro exI [of _ "GetViewerPose # r"]) (auto simp: q_def)
    qed
  qed
qed

text \<open>
  C3, at a concrete input: a frame without pose, in the started example session, adds the
  reading of the pose and the request of the next frame, and nothing else.
\<close>

theorem onXRFrame_requests_next_frame_first_witness:
  "session example_started \<noteq> None
   \<and> \<not> pose_available frame_without_pose
   \<and> effects (fst (onXRFrame example_ext 0 frame_without_pose example_started)) =
       effects example_started @ [GetViewerPose, RequestAnimationFrame]
   \<and> snd (onXRFrame example_ext 0 frame_without_pose example_started) = None"
proof -
  have s: "session example_started \<noteq> None"
    by (simp add: example_started_eq)
  have p: "\<not> pose_available frame_without_pose"
    and d: "\<not> has_getDevicePose frame_without_pose"
    by (simp_all add: pose_available_def frame_without_pose_def)
  from onXRFrame_requests_next_frame_first [OF s, of example_ext 0 frame_without_pose] p d
  have "effects (fst (onXRFrame example_ext 0 frame_without_pose example_started)) =
       effects example_started @ [GetViewerPose, RequestAnimationFrame]"
    and "snd (onXRFrame example_ext 0 frame_without_pose example_started) = None"
    by auto
  with s p show ?thesis by blast
qed

section \<open>The stabilized flag over a session\<close>

lemma same_page_refl: "same_page a a"
  by (simp add: same_page_def)

lemma emit_running: "session_running (emit e a) = session_running a"
  by (simp add: emit_def session_running_def)

lemma placeModel_begin_page: "same_page a (fst (placeModel_begin a))"
  by (simp add: placeModel_begin_def same_page_def emit_def Let_def)

lemma placeModel_begin_running:
  "session_running a \<Longrightarrow> session_running (fst (placeModel_begin a))"
  by (simp add: placeModel_begin_def session_running_def emit_def Let_def)

lemma processXRInput_page: "same_page a (processXRInput frame a)"
  using placeModel_begin_page [of "emit GetPose a"]
  by (simp add: processXRInput_def same_page_def emit_def Let_def split: list.split)

lemma processXRInput_running:
  "session_running a \<Longrightarrow> session_running (processXRInput frame a)"
  by (simp add: processXRInput_def Let_def emit_running placeModel_begin_running
      split: list.split)

lemma view_body_page: "same_page a (fst (view_body x frame view a))"
proof -
  have "\<And>b. same_page a b \<Longrightarrow> same_page a (processXRInput frame b)"
    using processXRInput_page [of _ frame] by (simp add: same_page_def)
  then show ?thesis
    unfolding view_body_def Let_def
    by (auto split: option.split simp: same_page_def emit_def)
qed

lemma view_body_running:
  assumes "session_running a"
  shows "snd (view_body x frame view a) = None
    \<and> session_running (fst (view_body x frame view a))"
proof -
  obtain rd c r where f: "renderer a = Some rd" "camera a = Some c" "reticle a = Some r"
    using assms by (auto simp: session_running_def)
  define c2 where "c2 = c\<lparr>projectionMatrix := Matrix4_fromArray (view_projectionMatrix view),
      matrix := Matrix4_getInverse x (Matrix4_fromArray (view_transform_inverse_matrix view))\<rparr>"
  define a3 where "a3 = emit ReticleUpdate
      ((emit UpdateMatrixWorld ((emit (SetViewport (view_viewport view)) a)\<lparr>camera := Some c2\<rparr>))
         \<lparr>reticle := Some (Reticle_update x r)\<rparr>)"
  have "session_running a3"
    using assms by (simp add: a3_def emit_def session_running_def)
  then have run4: "session_running (processXRInput frame a3)"
    by (rule processXRInput_running)
  then obtain rd' where rd': "renderer (processXRInput frame a3) = Some rd'"
    by (auto simp: session_running_def)
  have "view_body x frame view a = (emit Render (processXRInput frame a3), None)"
    using f rd' by (simp add: view_body_def Let_def emit_def a3_def c2_def)
  with run4 show ?thesis
    by (simp add: emit_running)
qed

lemma view_loop_page: "same_page a (fst (view_loop x frame views a))"
proof (induction views arbitrary: a)
  case Nil
  show ?case by (simp add: same_page_refl)
next
  case (Cons view views)
  obtain a' err where b: "view_body x frame view a = (a', err)"
    by (cases "view_body x frame view a")
  have "same_page a a'"
    using view_body_page [of a x frame view] b by simp
  moreover have "same_page a' (fst (view_loop x frame views a'))"
    by (rule Cons.IH)
  ultimately show ?case
    using b by (cases err) (auto simp: same_page_def)
qed

lemma view_loop_running:
  "session_running a \<Longrightarrow>
     snd (view_loop x frame views a) = None
     \<and> session_running (fst (view_loop x frame views a))"
proof (induction views arbitrary: a)
  case Nil
  then show ?case by simp
next
  case (Cons view views)
  obtain a' err where b: "view_body x frame view a = (a', err)"
    by (cases "view_body x frame view a")
  with view_body_running [OF Cons.prems, of x frame view]
  have "err = None" "session_running a'" by simp_all
  with Cons.IH [of a'] b show ?case by simp
qed

lemma tick_page: "same_page a (fst (tick a))"
  by (simp add: tick_def same_page_def emit_def split: option.split)

text \<open>A frame leaves the flag and the classes alone, or sets the flag and adds the class.\<close>

lemma onXRFrame_page:
  "same_page a (fst (onXRFrame x t frame a)) \<or>
   (\<not> truthy (stabilized a) \<and> pose_available frame \<and>
    stabilized (fst (onXRFrame x t frame a)) = Some True \<and>
    body_classes (fst (onXRFrame x t frame a)) = insert ''stabilized'' (body_classes a))"
proof -
  define a0 where "a0 = emit (if has_getDevicePose frame then GetDevicePose else GetViewerPose) a"
  have p0: "same_page a a0" by (simp add: a0_def emit_def same_page_def)
  obtain a1 e1 where t: "tick a0 = (a1, e1)" by (cases "tick a0")
  have p1: "same_page a a1"
    using tick_page [of a0] t p0 by (simp add: same_page_def)
  define a2 where "a2 = emit GetViewerPose a1"
  have p2: "same_page a a2" using p1 by (simp add: a2_def emit_def same_page_def)
  show ?thesis
  proof (cases "e1 = None \<and> pose_available frame \<and> getViewerPose frame \<noteq> None")
    case False
    then show ?thesis
      using t p1 p2
      by (auto simp: onXRFrame_def Let_def a0_def [symmetric] a2_def [symmetric]
          split: option.split)
  next
    case True
    then obtain views where v: "getViewerPose frame = Some views" by auto
    obtain a3 e3 where l: "view_loop x frame views a2 = (a3, e3)"
      by (cases "view_loop x frame views a2")
    have p3: "same_page a a3"
      using view_loop_page [of a2 x frame views] l p2 by (simp add: same_page_def)
    show ?thesis
      using True v t l p3
      by (auto simp: onXRFrame_def Let_def a0_def [symmetric] a2_def [symmetric] same_page_def
          split: option.split)
  qed
qed

lemma onXRFrame_without_pose:
  "\<not> pose_available frame \<Longrightarrow> same_page a (fst (onXRFrame x t frame a))"
  using onXRFrame_page [of a x t frame] by auto

text \<open>A frame with a viewer pose, in a running session, ends without error.\<close>

lemma onXRFrame_running:
  assumes "session_running a" "pose_available frame" "getViewerPose frame \<noteq> None"
  shows "snd (onXRFrame x t frame a) = None"
    and "session_running (fst (onXRFrame x t frame a))"
    and "truthy (stabilized (fst (onXRFrame x t frame a))) =
           (truthy (stabilized a) \<or> reticle_visible (fst (onXRFrame x t frame a)))"
proof -
  define a0 where "a0 = emit (if has_getDevicePose frame then GetDevicePose else GetViewerPose) a"
  define a1 where "a1 = fst (tick a0)"
  define a2 where "a2 = emit GetViewerPose a1"
  from assms obtain views where v: "getViewerPose frame = Some views" by auto
  have t: "tick a0 = (a1, None)" and r1: "session_running a1" and p1: "same_page a a1"
    using assms(1)
    by (auto simp: a1_def a0_def tick_def emit_def session_running_def same_page_def)
  have r2: "session_running a2" using r1 by (simp add: a2_def emit_running)
  have p2: "same_page a a2" using p1 by (simp add: a2_def emit_def same_page_def)
  define a3 where "a3 = fst (view_loop x frame views a2)"
  have l: "view_loop x frame views a2 = (a3, None)" and r3: "session_running a3"
    using view_loop_running [OF r2, of x frame views] by (simp_all add: a3_def prod_eq_iff)
  have p3: "same_page a a3"
    using view_loop_page [of a2 x frame views] p2 by (simp add: a3_def same_page_def)
  obtain r where r: "reticle a3 = Some r" using r3 by (auto simp: session_running_def)
  have res: "onXRFrame x t frame a =
      (if visible r \<and> \<not> truthy (stabilized a3)
       then (a3\<lparr>stabilized := Some True,
                body_classes := insert ''stabilized'' (body_classes a3)\<rparr>, None)
       else (a3, None))"
    using assms(2) v t l r
    by (simp add: onXRFrame_def Let_def a0_def [symmetric] a2_def [symmetric])
  show "snd (onXRFrame x t frame a) = None" by (simp add: res)
  show "session_running (fst (onXRFrame x t frame a))"
    using r3 by (simp add: res session_running_def)
  show "truthy (stabilized (fst (onXRFrame x t frame a))) =
           (truthy (stabilized a) \<or> reticle_visible (fst (onXRFrame x t frame a)))"
    using p3 r by (auto simp: res same_page_def reticle_visible_def truthy_def)
qed

lemma placeModel_resume_page: "same_page a (fst (placeModel_resume outcome a))"
  by (cases outcome)
     (auto simp: placeModel_resume_def same_page_def emit_def Let_def
        split: option.split list.split)

lemma placeModel_resume_running:
  assumes "session_running a"
  shows "session_running (fst (placeModel_resume outcome a))"
proof -
  obtain m sc c where f: "model a = Some m" "scene a = Some sc" "pivot sc = None"
      "camera a = Some c"
    using assms by (auto simp: session_running_def split: option.split_asm)
  show ?thesis
  proof (cases outcome)
    case (HitResolved hs)
    then show ?thesis
      using assms f
      by (cases hs) (simp_all add: placeModel_resume_def session_running_def Let_def)
  next
    case (HitRejected e)
    then show ?thesis
      using assms by (simp add: placeModel_resume_def emit_running)
  next
    case (HitThrew e)
    then show ?thesis
      using assms by (simp add: placeModel_resume_def emit_running)
  qed
qed

lemma onXRFrame_keeps_running:
  assumes "session_running a"
  shows "session_running (fst (onXRFrame x t frame a))"
proof (cases "pose_available frame \<and> getViewerPose frame \<noteq> None")
  case True
  with assms show ?thesis by (simp add: onXRFrame_running(2))
next
  case False
  obtain s where "session a = Some s"
    using assms by (auto simp: session_running_def)
  with False assms show ?thesis
    by (auto simp: onXRFrame_def tick_def emit_def Let_def session_running_def)
qed

text \<open>
  Every callback of a session keeps the state of a running session; in particular the
  scene never gets a pivot.
\<close>

lemma reticle_settled_running:
  "session_running a \<Longrightarrow> session_running (reticle_settled r a)"
  by (auto simp: reticle_settled_def session_running_def)

lemma step_running: "session_running a \<Longrightarrow> session_running (step x ev a)"
  by (cases ev)
     (simp_all add: step_def onXRFrame_keeps_running placeModel_resume_running
        reticle_settled_running)

lemma run_running: "session_running a \<Longrightarrow> session_running (run x evs a)"
  by (induction evs arbitrary: a) (simp_all add: step_running)

lemma step_page:
  "same_page a (step x ev a) \<or>
   (\<not> truthy (stabilized a) \<and> stabilized (step x ev a) = Some True \<and>
    body_classes (step x ev a) = insert ''stabilized'' (body_classes a))"
proof (cases ev)
  case (Frame t frame)
  with onXRFrame_page [of a x t frame] show ?thesis by (auto simp: step_def)
next
  case (ReticleSettled r)
  then show ?thesis by (simp add: step_def reticle_settled_def same_page_def)
next
  case (HitSettled outcome)
  with placeModel_resume_page [of a outcome] show ?thesis by (simp add: step_def)
qed

lemma step_keeps_stabilized: "truthy (stabilized a) \<Longrightarrow> truthy (stabilized (step x ev a))"
  using step_page [of a x ev] by (auto simp: same_page_def)

lemma step_keeps_class:
  "''stabilized'' \<in> body_classes a \<Longrightarrow> ''stabilized'' \<in> body_classes (step x ev a)"
  using step_page [of a x ev] by (auto simp: same_page_def)

lemma run_keeps_stabilized: "truthy (stabilized a) \<Longrightarrow> truthy (stabilized (run x evs a))"
  by (induction evs arbitrary: a) (simp_all add: step_keeps_stabilized)

lemma run_keeps_class:
  "''stabilized'' \<in> body_classes a \<Longrightarrow> ''stabilized'' \<in> body_classes (run x evs a)"
  by (induction evs arbitrary: a) (simp_all add: step_keeps_class)

lemma transitions_bound: "transitions x evs a \<le> (if truthy (stabilized a) then 0 else 1)"
proof (induction evs arbitrary: a)
  case Nil
  then show ?case by simp
next
  case (Cons ev evs)
  have ih: "transitions x evs (step x ev a) \<le> (if truthy (stabilized (step x ev a)) then 0 else 1)"
    by (rule Cons.IH)
  show ?case
  proof (cases "fires x ev a")
    case True
    then show ?thesis using ih by (simp add: fires_def)
  next
    case False
    then show ?thesis
      using ih step_keeps_stabilized [of a x ev] by (auto simp: fires_def split: if_splits)
  qed
qed

text \<open>
  C2, as the code has it.  In a running session a frame callback whose viewer pose is
  available ends with the flag set exactly when it was set before or the reticle is
  visible at the end of the callback, and when it sets the flag it adds the class; a
  frame callback whose pose is not available changes neither the flag nor the classes,
  visible reticle or not.  Over any sequence of callbacks of a session (frames, the
  reticle's hit test settling, a placement hit test settling) the flag goes from unset to
  set at most once, and a set flag and the class stay.
\<close>

theorem stabilized_once_when_posed:
  "(session_running a \<and> pose_available frame \<and> getViewerPose frame \<noteq> None \<longrightarrow>
      snd (onXRFrame x t frame a) = None
      \<and> truthy (stabilized (fst (onXRFrame x t frame a))) =
          (truthy (stabilized a) \<or> reticle_visible (fst (onXRFrame x t frame a)))
      \<and> (\<not> truthy (stabilized a) \<and> reticle_visible (fst (onXRFrame x t frame a)) \<longrightarrow>
            ''stabilized'' \<in> body_classes (fst (onXRFrame x t frame a))))
   \<and> (\<not> pose_available frame \<longrightarrow>
        stabilized (fst (onXRFrame x t frame a)) = stabilized a
        \<and> body_classes (fst (onXRFrame x t frame a)) = body_classes a)
   \<and> transitions x evs a \<le> 1
   \<and> (truthy (stabilized a) \<longrightarrow> truthy (stabilized (run x evs a)))
   \<and> (''stabilized'' \<in> body_classes a \<longrightarrow> ''stabilized'' \<in> body_classes (run x evs a))"
proof (intro conjI impI)
  assume h: "session_running a \<and> pose_available frame \<and> getViewerPose frame \<noteq> None"
  then have h': "session_running a" "pose_available frame" "getViewerPose frame \<noteq> None"
    by simp_all
  note r = onXRFrame_running [OF h', of x t]
  show "snd (onXRFrame x t frame a) = None" by (rule r(1))
  show "truthy (stabilized (fst (onXRFrame x t frame a))) =
          (truthy (stabilized a) \<or> reticle_visible (fst (onXRFrame x t frame a)))"
    by (rule r(3))
  assume "\<not> truthy (stabilized a) \<and> reticle_visible (fst (onXRFrame x t frame a))"
  with r(3) have ns: "\<not> truthy (stabilized a)"
    and ts: "truthy (stabilized (fst (onXRFrame x t frame a)))"
    by simp_all
  from onXRFrame_page [of a x t frame]
  consider (same) "stabilized (fst (onXRFrame x t frame a)) = stabilized a"
    | (added) "body_classes (fst (onXRFrame x t frame a)) = insert ''stabilized'' (body_classes a)"
    unfolding same_page_def by blast
  then show "''stabilized'' \<in> body_classes (fst (onXRFrame x t frame a))"
  proof cases
    case same
    with ns ts show ?thesis by simp
  next
    case added
    then show ?thesis by (simp only: insertI1)
  qed
next
  assume "\<not> pose_available frame"
  then have p: "same_page a (fst (onXRFrame x t frame a))"
    by (rule onXRFrame_without_pose)
  from p show "stabilized (fst (onXRFrame x t frame a)) = stabilized a"
    by (simp add: same_page_def)
  from p show "body_classes (fst (onXRFrame x t frame a)) = body_classes a"
    by (simp add: same_page_def)
next
  show "transitions x evs a \<le> 1"
    using transitions_bound [of x evs a] by (simp split: if_splits)
next
  assume "truthy (stabilized a)"
  then show "truthy (stabilized (run x evs a))" by (rule run_keeps_stabilized)
next
  assume "''stabilized'' \<in> body_classes a"
  then show "''stabilized'' \<in> body_classes (run x evs a)" by (rule run_keeps_class)
qed

text \<open>The example session, evaluated.\<close>

lemmas frame_defs = onXRFrame_def view_body_def processXRInput_def placeModel_begin_def
  tick_def emit_def pose_available_def Let_def Raycaster_new_def

lemma first_frame_eq:
  "fst (onXRFrame example_ext 0 example_frame example_started) =
     example_started
       \<lparr>rafId := Some 2,
        raycaster := Some \<lparr>ray = CameraRay 0 0 (camera example_started)\<rparr>,
        effects := effects example_started @
          [GetViewerPose, RequestAnimationFrame, GetViewerPose,
           SetViewport \<lparr>vp_x = 0, vp_y = 0, vp_width = 1080, vp_height = 1920\<rparr>,
           UpdateMatrixWorld, ReticleUpdate, GetPose,
           RequestHitTest (CameraRay 0 0 (camera example_started)), Render]\<rparr>"
  by (simp add: example_started_eq frame_defs example_frame_def example_view_def
      example_ext_def fromArray_identity16)

lemma reticle_found_eq:
  "reticle_found =
     example_started
       \<lparr>rafId := Some 2,
        reticle := Some \<lparr>visible = True\<rparr>,
        raycaster := Some \<lparr>ray = CameraRay 0 0 (camera example_started)\<rparr>,
        effects := effects example_started @
          [GetViewerPose, RequestAnimationFrame, GetViewerPose,
           SetViewport \<lparr>vp_x = 0, vp_y = 0, vp_width = 1080, vp_height = 1920\<rparr>,
           UpdateMatrixWorld, ReticleUpdate, GetPose,
           RequestHitTest (CameraRay 0 0 (camera example_started)), Render]\<rparr>"
  unfolding reticle_found_def first_frame_eq
  by (simp add: reticle_settled_def example_started_eq)

lemma first_frame_reticle:
  "\<not> reticle_visible (fst (onXRFrame example_ext 0 example_frame example_started))"
  unfolding first_frame_eq by (simp add: reticle_visible_def example_started_eq)

lemma reticle_found_facts:
  "session_running reticle_found" "reticle_visible reticle_found"
  "\<not> truthy (stabilized reticle_found)"
  unfolding reticle_found_eq
  by (simp_all add: session_running_def reticle_visible_def example_started_eq truthy_def)

lemma example_frame_facts:
  "pose_available example_frame" "getViewerPose example_frame \<noteq> None"
  "\<not> pose_available frame_without_pose"
  by (simp_all add: pose_available_def example_frame_def frame_without_pose_def)

lemma posed_frame_reticle:
  "reticle_visible (fst (onXRFrame example_ext 0 example_frame reticle_found))"
  unfolding reticle_found_eq
  by (simp add: example_started_eq frame_defs example_frame_def example_view_def
      example_ext_def fromArray_identity16 reticle_visible_def)

lemma unposed_frame_facts:
  "reticle_visible (fst (onXRFrame example_ext 0 frame_without_pose reticle_found))"
  "\<not> truthy (stabilized (fst (onXRFrame example_ext 0 frame_without_pose reticle_found)))"
  "''stabilized'' \<notin> body_classes (fst (onXRFrame example_ext 0 frame_without_pose reticle_found))"
  unfolding reticle_found_eq
  by (simp_all add: example_started_eq frame_defs frame_without_pose_def reticle_visible_def
      truthy_def)

text \<open>
  C2, at concrete inputs.  In the example session the reticle has become visible after a
  first frame; the next frame with a pose sets the flag and adds the class.  A frame
  without pose changes nothing, and the callbacks that follow keep the flag and the class.
\<close>

theorem stabilized_once_when_posed_witness:
  "session_running reticle_found \<and> pose_available example_frame
   \<and> getViewerPose example_frame \<noteq> None
   \<and> \<not> truthy (stabilized reticle_found)
   \<and> reticle_visible (fst (onXRFrame example_ext 0 example_frame reticle_found))
   \<and> truthy (stabilized (fst (onXRFrame example_ext 0 example_frame reticle_found)))
   \<and> ''stabilized'' \<in> body_classes (fst (onXRFrame example_ext 0 example_frame reticle_found))
   \<and> \<not> pose_available frame_without_pose
   \<and> stabilized (fst (onXRFrame example_ext 0 frame_without_pose reticle_found))
       = stabilized reticle_found
   \<and> truthy (stabilized
        (run example_ext
           [Frame 0 frame_without_pose, ReticleSettled \<lparr>visible = False\<rparr>, Frame 0 example_frame]
           (fst (onXRFrame example_ext 0 example_frame reticle_found))))
   \<and> ''stabilized'' \<in> body_classes
        (run example_ext
           [Frame 0 frame_without_pose, ReticleSettled \<lparr>visible = False\<rparr>, Frame 0 example_frame]
           (fst (onXRFrame example_ext 0 example_frame reticle_found)))"
proof -
  define evs :: "real event list" where
    "evs = [Frame 0 frame_without_pose, ReticleSettled \<lparr>visible = False\<rparr>, Frame 0 example_frame]"
  define a1 where "a1 = fst (onXRFrame example_ext 0 example_frame reticle_found)"
  note first = stabilized_once_when_posed
    [where a = reticle_found and frame = example_frame and x = example_ext and t = 0
       and evs = evs]
  note unposed = stabilized_once_when_posed
    [where a = reticle_found and frame = frame_without_pose and x = example_ext and t = 0
       and evs = evs]
  note later = stabilized_once_when_posed
    [where a = a1 and frame = frame_without_pose and x = example_ext and t = 0 and evs = evs]
  have v: "reticle_visible a1"
    unfolding a1_def by (rule posed_frame_reticle)
  have s1: "truthy (stabilized a1)"
    using first reticle_found_facts example_frame_facts v unfolding a1_def by blast
  have c1: "''stabilized'' \<in> body_classes a1"
    using first reticle_found_facts example_frame_facts v unfolding a1_def by blast
  have u: "stabilized (fst (onXRFrame example_ext 0 frame_without_pose reticle_found))
       = stabilized reticle_found"
    using unposed example_frame_facts(3) by blast
  have s2: "truthy (stabilized (run example_ext evs a1))"
    using later s1 by blast
  have c2: "''stabilized'' \<in> body_classes (run example_ext evs a1)"
    using later c1 by blast
  show ?thesis
    using reticle_found_facts example_frame_facts v s1 c1 u s2 c2
    unfolding a1_def evs_def by blast
qed

text \<open>
  C2 as it is stated fails.  In the example session the first frame ends with the reticle
  not visible, then the reticle becomes visible; the next frame has no viewer pose, and
  though the reticle is visible in it, the flag stays unset and the class is not added.
\<close>

theorem stabilized_without_pose_counterexample:
  "session_running reticle_found
   \<and> \<not> reticle_visible (fst (onXRFrame example_ext 0 example_frame example_started))
   \<and> reticle_visible reticle_found
   \<and> \<not> truthy (stabilized reticle_found)
   \<and> reticle_visible (fst (onXRFrame example_ext 0 frame_without_pose reticle_found))
   \<and> \<not> truthy (stabilized (fst (onXRFrame example_ext 0 frame_without_pose reticle_found)))
   \<and> ''stabilized'' \<notin> body_classes (fst (onXRFrame example_ext 0 frame_without_pose reticle_found))"
  using reticle_found_facts first_frame_reticle unposed_frame_facts by blast

section \<open>The capability probe\<close>

lemma init_without_capability:
  "\<not> (navigator_xr p \<and> requestHitTestSource p) \<Longrightarrow>
     ''unsupported'' \<in> body_classes (init p a)
     \<and> enter_ar_click (init p a) = enter_ar_click a \<and> effects (init p a) = effects a"
  by (auto simp: init_def onNoXRDevice_def)

lemma init_probe_rejected:
  "navigator_xr p \<Longrightarrow> requestHitTestSource p \<Longrightarrow> isSessionSupported p = Rejects e \<Longrightarrow>
     ''unsupported'' \<in> body_classes (init p a) \<and> enter_ar_click (init p a)"
  by (simp add: init_def init_settled_def onNoXRDevice_def emit_def Let_def)

text \<open>
  C9 says that a platform without support for AR sessions gets the class \<open>unsupported\<close>
  and no click listener.  The code does so when the XR entry point or the hit test is
  missing.  On a platform that has both and answers \<open>false\<close> to the support probe, \<open>init\<close>
  logs success, does not add the class, and has bound the click listener before the
  answer came.
\<close>

theorem init_negative_answer:
  "navigator_xr desktop_platform \<and> requestHitTestSource desktop_platform
   \<and> isSessionSupported desktop_platform = Resolves False
   \<and> ''unsupported'' \<notin> body_classes (init desktop_platform (App_new :: real app))
   \<and> enter_ar_click (init desktop_platform (App_new :: real app))
   \<and> effects (init desktop_platform (App_new :: real app)) =
       [ConsoleLog ''navigator.xr && XRSession.prototype.requestHitTestSource ok'',
        IsSessionSupported ''immersive-ar'', AddClickListener,
        ConsoleLog ''supportsSession immersive-ar ok'']"
  by (simp add: desktop_platform_def init_def init_settled_def emit_def Let_def App_new_def)

section \<open>What the handlers of the scene animation script write\<close>

text \<open>
  C6. After the resize handler the camera's aspect is the window's new width divided by
  its new height, the projection has been recomputed from that aspect, and the renderer's
  size is the new width and height.
\<close>

theorem on_resize_synchronises:
  "camera_aspect (on_resize w s) = innerWidth w / innerHeight w
   \<and> projection_aspect (on_resize w s) = camera_aspect (on_resize w s)
   \<and> renderer_size (on_resize w s) = (innerWidth w, innerHeight w)
   \<and> sizes_width (on_resize w s) = innerWidth w
   \<and> sizes_height (on_resize w s) = innerHeight w"
  by (simp add: on_resize_def Let_def)

text \<open>
  C7, as the code has it.  The pointer handler writes \<open>mouseX\<close> and \<open>mouseY\<close>, which the
  frame update reads, and nothing else: the sphere is as it was.  The scroll handler
  writes the sphere's \<open>position.y\<close> itself, and nothing else.
\<close>

theorem pointer_and_scroll_writes:
  "on_mousemove event s =
     s\<lparr>mouseX := clientX event - windowX s, mouseY := clientY event - windowY s\<rparr>
   \<and> sphere_position (on_mousemove event s) = sphere_position s
   \<and> sphere_rotation (on_mousemove event s) = sphere_rotation s
   \<and> on_scroll w s =
       s\<lparr>sphere_position :=
           \<lparr>v_x = v_x (sphere_position s), v_y = scrollY w * 0.001, v_z = v_z (sphere_position s)\<rparr>\<rparr>
   \<and> sphere_rotation (on_scroll w s) = sphere_rotation s"
  by (simp add: on_mousemove_def on_scroll_def Let_def)

text \<open>
  C7 as it is stated fails for the scroll handler: on the freshly loaded page a scroll to
  1000 moves the sphere from height 0 to height 1 before any frame is drawn.
\<close>

theorem on_scroll_moves_sphere_counterexample:
  "v_y (sphere_position (script_load example_window)) = 0
   \<and> v_y (sphere_position (on_scroll example_window (script_load example_window))) = 1
   \<and> sphere_position (on_scroll example_window (script_load example_window))
       \<noteq> sphere_position (script_load example_window)"
proof -
  have a: "v_y (sphere_position (script_load example_window)) = 0"
    by (simp add: script_load_def)
  have b: "v_y (sphere_position (on_scroll example_window (script_load example_window))) = 1"
    by (simp add: on_scroll_def example_window_def)
  from a b have "v_y (sphere_position (on_scroll example_window (script_load example_window)))
      \<noteq> v_y (sphere_position (script_load example_window))"
    by simp
  then have "sphere_position (on_scroll example_window (script_load example_window))
       \<noteq> sphere_position (script_load example_window)"
    by auto
  with a b show ?thesis by blast
qed

text \<open>
  C8, as the code has it.  The frame update has no branch.  The sphere's new rotation
  about y is made of the elapsed time and the pointer's x alone; its new rotation about x
  is the previous one moved by 0.05 of its distance to the pointer's target, and its new
  depth is the previous depth minus 0.05 of the distance that is left: both depend on
  the sphere's previous state.  The other coordinates stay.
\<close>

theorem script_tick_result:
  "sphere_rotation (script_tick elapsedTime s) =
     \<lparr>v_x = v_x (sphere_rotation s) + 0.05 * (mouseY s * 0.001 - v_x (sphere_rotation s)),
      v_y = 0.5 * elapsedTime + 0.5 * (mouseX s * 0.001 - 0.5 * elapsedTime),
      v_z = v_z (sphere_rotation s)\<rparr>
   \<and> sphere_position (script_tick elapsedTime s) =
     \<lparr>v_x = v_x (sphere_position s),
      v_y = v_y (sphere_position s),
      v_z = v_z (sphere_position s)
            + - 0.05 * (mouseY s * 0.001
                 - (v_x (sphere_rotation s) + 0.05 * (mouseY s * 0.001 - v_x (sphere_rotation s))))\<rparr>
   \<and> targetX (script_tick elapsedTime s) = mouseX s * 0.001
   \<and> targetY (script_tick elapsedTime s) = mouseY s * 0.001"
  by (simp add: script_tick_def Let_def)

text \<open>
  C8 as it is stated fails.  Two pages with the pointer at the centre, drawn at the same
  elapsed time 2 with the same targets: the one on which the pointer had been low during
  an earlier frame gets another rotation and another depth than the freshly loaded one.
\<close>

theorem script_tick_history_counterexample:
  "targetX (script_tick 2 after_a_move) = targetX (script_tick 2 freshly_loaded)
   \<and> targetY (script_tick 2 after_a_move) = targetY (script_tick 2 freshly_loaded)
   \<and> v_x (sphere_rotation (script_tick 2 freshly_loaded)) = 0
   \<and> v_x (sphere_rotation (script_tick 2 after_a_move)) = 0.0475
   \<and> v_z (sphere_position (script_tick 2 freshly_loaded)) = 0
   \<and> v_z (sphere_position (script_tick 2 after_a_move)) = - 0.045125
   \<and> sphere_rotation (script_tick 2 after_a_move) \<noteq> sphere_rotation (script_tick 2 freshly_loaded)
   \<and> sphere_position (script_tick 2 after_a_move) \<noteq> sphere_position (script_tick 2 freshly_loaded)"
proof -
  have f: "sphere_rotation freshly_loaded = \<lparr>v_x = 0, v_y = 0, v_z = 0\<rparr>"
    "sphere_position freshly_loaded = \<lparr>v_x = 0, v_y = 0, v_z = 0\<rparr>"
    "mouseX freshly_loaded = 0" "mouseY freshly_loaded = 0"
    by (simp_all add: freshly_loaded_def on_mousemove_def script_load_def pointer_centre_def
        example_window_def Let_def)
  have m: "sphere_rotation after_a_move = \<lparr>v_x = 0.05, v_y = 0.25, v_z = 0\<rparr>"
    "sphere_position after_a_move = \<lparr>v_x = 0, v_y = 0, v_z = - 0.0475\<rparr>"
    "mouseX after_a_move = 0" "mouseY after_a_move = 0"
    by (simp_all add: after_a_move_def on_mousemove_def script_tick_def script_load_def
        pointer_centre_def pointer_low_def example_window_def Let_def)
  have t: "targetX (script_tick 2 after_a_move) = targetX (script_tick 2 freshly_loaded)"
    "targetY (script_tick 2 after_a_move) = targetY (script_tick 2 freshly_loaded)"
    by (simp_all add: script_tick_def Let_def f m)
  have r: "v_x (sphere_rotation (script_tick 2 freshly_loaded)) = 0"
    "v_x (sphere_rotation (script_tick 2 after_a_move)) = 0.0475"
    "v_z (sphere_position (script_tick 2 freshly_loaded)) = 0"
    "v_z (sphere_position (script_tick 2 after_a_move)) = - 0.045125"
    by (simp_all add: script_tick_def Let_def f m)
  have "v_x (sphere_rotation (script_tick 2 after_a_move))
      \<noteq> v_x (sphere_rotation (script_tick 2 freshly_loaded))"
    "v_z (sphere_position (script_tick 2 after_a_move))
      \<noteq> v_z (sphere_position (script_tick 2 freshly_loaded))"
    unfolding r by simp_all
  then have "sphere_rotation (script_tick 2 after_a_move) \<noteq> sphere_rotation (script_tick 2 freshly_loaded)"
    "sphere_position (script_tick 2 after_a_move) \<noteq> sphere_position (script_tick 2 freshly_loaded)"
    by auto
  with t r show ?thesis by blast
qed

end
